theory Spec2Isabelle
  imports Complex_Main
begin

section \<open>Data model\<close>

text \<open>
  The engine is JavaScript over an SQLite store. JavaScript numbers are modelled as exact
  numbers: \<open>real\<close> where the code multiplies by a configuration factor or calls
  \<open>Math.ceil\<close> (ease, interval, due day), \<open>int\<close> for counters, identifiers and epoch
  days. Rounding of IEEE doubles is outside the model. The clock
  (\<open>getDaysSinceEpoch()\<close>, \<open>Date.now()\<close>) and \<open>Math.random()\<close> are explicit
  arguments.

  The column \<open>cards.state\<close> is one of six strings; they are the constructors of
  \<open>card_state\<close>. \<open>leechAction\<close> is \<open>'suspend'\<close> or \<open>'tag'\<close>.
\<close>

datatype card_state = New | Learning | Relearning | Review | Suspended | Buried

datatype leech_action = Suspend | Tag

record config =
  learningStepsMins :: "real list"
  graduatingIntervalDays :: real
  easyBonus :: real
  hardInterval :: real
  lapseStepsMins :: "real list"
  newPerDay :: int
  reviewsPerDay :: int
  minEase :: real
  leechThreshold :: int
  leechAction :: leech_action
  fuzzPercent :: real
  burySiblings :: bool

text \<open>\<open>getDefaultConfig()\<close> of config-tools.js, the same literal as the constructor of
  \<open>Scheduler\<close> and \<open>ensureDeckExists\<close> of the importers.\<close>

definition getDefaultConfig :: config where
  "getDefaultConfig =
     \<lparr>learningStepsMins = [1, 10], graduatingIntervalDays = 1, easyBonus = 1.3,
      hardInterval = 1.2, lapseStepsMins = [10], newPerDay = 20, reviewsPerDay = 200,
      minEase = 1.3, leechThreshold = 8, leechAction = Suspend, fuzzPercent = 0.05,
      burySiblings = True\<rparr>"

text \<open>
  The object \<open>{state, due, ivl, ease, reps, lapses}\<close> both schedulers copy and mutate.
  \<open>applyScheduling\<close> receives a \<open>beforeState\<close> without the key \<open>due\<close>, so the field
  is optional: \<open>None\<close> is JavaScript's \<open>undefined\<close>.
\<close>

record sched_state =
  state :: card_state
  due :: "real option"
  ivl :: real
  ease :: real
  reps :: int
  lapses :: int

text \<open>A row of the table \<open>cards\<close> (001 schema): \<open>queue_position\<close> is the only nullable
  column. The column \<open>template\<close> holds \<open>'forward'\<close>, \<open>'reverse'\<close> or
  \<open>'cloze-N'\<close>; \<open>Cloze n\<close> stands for the string \<open>cloze-n\<close>.\<close>

datatype template = Forward | Reverse | Cloze nat

record card =
  c_id :: int
  c_note_id :: int
  c_template :: template
  c_state :: card_state
  c_due :: real
  c_ivl :: real
  c_ease :: real
  c_reps :: int
  c_lapses :: int
  c_queue_position :: "int option"
  c_updated_at :: int

section \<open>The Scheduler class\<close>

datatype error =
  InvalidState card_state
  | CardNotFound int
  | NoteNotFound int
  | DeckNotFound string
  | UnsupportedModel string
  | FrontRequired
  | BackRequired
  | StorageError

text \<open>\<open>getFuzzFactor()\<close>; \<open>rnd\<close> is the value \<open>Math.random()\<close> returns.\<close>

definition getFuzzFactor :: "config \<Rightarrow> real \<Rightarrow> real" where
  "getFuzzFactor cfg rnd = 1 + (rnd - 0.5) * 2 * fuzzPercent cfg"

definition scheduleNewCard :: "config \<Rightarrow> sched_state \<Rightarrow> int \<Rightarrow> int \<Rightarrow> sched_state" where
  "scheduleNewCard cfg st rating today =
     (if rating = 1 then st\<lparr>state := Learning, due := Some (real_of_int today), ivl := 0\<rparr>
      else if rating = 2 \<or> rating = 3 then
        st\<lparr>state := Learning, due := Some (real_of_int today), ivl := 0\<rparr>
      else if rating = 4 then
        (let i = real_of_int \<lceil>graduatingIntervalDays cfg * easyBonus cfg\<rceil>
         in st\<lparr>state := Review, ivl := i, due := Some (real_of_int today + i),
               ease := 2.5 + 0.15\<rparr>)
      else st)"

definition scheduleLearningCard :: "config \<Rightarrow> sched_state \<Rightarrow> int \<Rightarrow> int \<Rightarrow> sched_state" where
  "scheduleLearningCard cfg st rating today =
     (if rating = 1 then st\<lparr>due := Some (real_of_int today), ivl := 0\<rparr>
      else if rating = 2 \<or> rating = 3 \<or> rating = 4 then
        (let st1 = st\<lparr>state := Review, ivl := graduatingIntervalDays cfg,
                       due := Some (real_of_int today + graduatingIntervalDays cfg)\<rparr>;
             st2 = (if ease st1 = 2.5 then st1\<lparr>ease := 2.5\<rparr> else st1)
         in if rating = 4 then
              (let i = real_of_int \<lceil>ivl st2 * easyBonus cfg\<rceil>
               in st2\<lparr>ivl := i, due := Some (real_of_int today + i), ease := ease st2 + 0.15\<rparr>)
            else st2)
      else st)"

definition scheduleReviewCard ::
  "config \<Rightarrow> real \<Rightarrow> sched_state \<Rightarrow> int \<Rightarrow> int \<Rightarrow> sched_state" where
  "scheduleReviewCard cfg rnd st rating today =
     (let st1 =
        (if rating = 1 then
           (let s = st\<lparr>lapses := lapses st + 1, state := Relearning,
                         ease := max (minEase cfg) (ease st - 0.2),
                         due := Some (real_of_int today), ivl := 0\<rparr>
            in if lapses s \<ge> leechThreshold cfg then
                 (if leechAction cfg = Suspend then s\<lparr>state := Suspended\<rparr> else s)
               else s)
         else if rating = 2 then
           (let e = max (minEase cfg) (ease st - 0.15);
                i = real_of_int \<lceil>ivl st * hardInterval cfg * getFuzzFactor cfg rnd\<rceil>
            in st\<lparr>ease := e, ivl := i, due := Some (real_of_int today + i)\<rparr>)
         else if rating = 3 then
           (let i = real_of_int \<lceil>ivl st * ease st * getFuzzFactor cfg rnd\<rceil>
            in st\<lparr>ivl := i, due := Some (real_of_int today + i)\<rparr>)
         else if rating = 4 then
           (let e = ease st + 0.15;
                i = real_of_int \<lceil>ivl st * e * easyBonus cfg * getFuzzFactor cfg rnd\<rceil>
            in st\<lparr>ease := e, ivl := i, due := Some (real_of_int today + i)\<rparr>)
         else st)
      in if ivl st1 < 1 then st1\<lparr>ivl := 1, due := Some (real_of_int today + 1)\<rparr> else st1)"

text \<open>\<open>scheduleCard(card, rating)\<close>: the pair is \<open>(beforeState, afterState)\<close> of the
  object returned (its third field is the timestamp passed in or the clock); the
  \<open>default\<close> branch of the switch throws.\<close>

definition beforeState_of :: "card \<Rightarrow> sched_state" where
  "beforeState_of c =
     \<lparr>state = c_state c, due = Some (c_due c), ivl = c_ivl c, ease = c_ease c,
      reps = c_reps c, lapses = c_lapses c\<rparr>"

definition scheduleCard ::
  "config \<Rightarrow> real \<Rightarrow> int \<Rightarrow> card \<Rightarrow> int \<Rightarrow> error + (sched_state \<times> sched_state)" where
  "scheduleCard cfg rnd today c rating =
     (let beforeState = beforeState_of c
      in case c_state c of
           New \<Rightarrow>
             Inr (beforeState,
                  scheduleNewCard cfg (beforeState\<lparr>reps := reps beforeState + 1\<rparr>) rating today)
         | Learning \<Rightarrow> Inr (beforeState, scheduleLearningCard cfg beforeState rating today)
         | Relearning \<Rightarrow> Inr (beforeState, scheduleLearningCard cfg beforeState rating today)
         | Review \<Rightarrow>
             Inr (beforeState,
                  scheduleReviewCard cfg rnd (beforeState\<lparr>reps := reps beforeState + 1\<rparr>)
                    rating today)
         | Suspended \<Rightarrow> Inl (InvalidState Suspended)
         | Buried \<Rightarrow> Inl (InvalidState Buried))"

section \<open>applyScheduling, the scheduler of the answer-card tool\<close>

definition applyScheduling :: "config \<Rightarrow> real \<Rightarrow> int \<Rightarrow> sched_state \<Rightarrow> int \<Rightarrow> sched_state" where
  "applyScheduling cfg rnd today beforeState rating =
     (let learning_case =
            (if rating = 1 then beforeState\<lparr>due := Some (real_of_int today), ivl := 0\<rparr>
             else
               (let a = beforeState\<lparr>state := Review, ivl := graduatingIntervalDays cfg,
                          due := Some (real_of_int today + graduatingIntervalDays cfg)\<rparr>
                in if state beforeState = New then a\<lparr>ease := 2.5\<rparr> else a))
      in case state beforeState of
        New \<Rightarrow>
          (let a = beforeState\<lparr>reps := reps beforeState + 1\<rparr>
           in if rating = 1 then a\<lparr>state := Learning, due := Some (real_of_int today), ivl := 0\<rparr>
              else if rating = 4 then
                (let i = real_of_int \<lceil>graduatingIntervalDays cfg * easyBonus cfg\<rceil>
                 in a\<lparr>state := Review, ivl := i, due := Some (real_of_int today + i),
                      ease := 2.5 + 0.15\<rparr>)
              else a\<lparr>state := Learning, due := Some (real_of_int today), ivl := 0\<rparr>)
      | Learning \<Rightarrow> learning_case
      | Relearning \<Rightarrow> learning_case
      | Review \<Rightarrow>
          (let a = beforeState\<lparr>reps := reps beforeState + 1\<rparr>
           in if rating = 1 then
                a\<lparr>lapses := lapses a + 1, state := Relearning,
                  ease := max (minEase cfg) (ease a - 0.2),
                  due := Some (real_of_int today), ivl := 0\<rparr>
              else
                (let fuzz = (rnd - 0.5) * 2 * fuzzPercent cfg;
                     multiplier =
                       (if rating = 2 then hardInterval cfg
                        else if rating = 4 then ease a * easyBonus cfg
                        else ease a);
                     e = (if rating = 2 then max (minEase cfg) (ease a - 0.15)
                          else if rating = 4 then ease a + 0.15
                          else ease a);
                     i = real_of_int \<lceil>ivl a * multiplier * (1 + fuzz)\<rceil>
                 in a\<lparr>ease := e, ivl := i, due := Some (real_of_int today + i)\<rparr>))
      | Suspended \<Rightarrow> beforeState
      | Buried \<Rightarrow> beforeState)"

section \<open>The store and the answer-card tool\<close>

text \<open>
  Tables are lists of rows in insertion order. \<open>n_fields\<close> is the object whose
  \<open>JSON.stringify\<close> the column \<open>fields_json\<close> holds; \<open>d_config\<close> is the object the
  column \<open>config_json\<close> parses to. The \<open>*_seq\<close> counters are the AUTOINCREMENT
  sequences: an insert takes the next value as its id (\<open>this.lastID\<close>).
\<close>

record note_row =
  n_id :: int
  n_deck_id :: int
  n_model :: string
  n_fields :: "(string \<times> string) list"
  n_tags :: string

record deck =
  d_id :: int
  d_name :: string
  d_parent_id :: "int option"
  d_config :: config

record review =
  r_id :: int
  r_card_id :: int
  r_ts :: int
  r_rating :: int
  r_ivl_before :: real
  r_ivl_after :: real
  r_ease_before :: real
  r_ease_after :: real
  r_state_before :: card_state
  r_state_after :: card_state

record db =
  tbl_cards :: "card list"
  tbl_notes :: "note_row list"
  tbl_decks :: "deck list"
  tbl_reviews :: "review list"
  card_seq :: int
  note_seq :: int
  deck_seq :: int
  review_seq :: int

text \<open>The statements the handler issues; a statement in \<open>faults\<close> calls back with an
  error (an I/O error, a full disk, a locked file).\<close>

datatype db_op = SelectCard | UpdateCard | InsertReview

record answer_result =
  next_state :: card_state
  dueTs :: real
  ivlDays :: real
  logId :: int

text \<open>\<open>SELECT c.*, n.deck_id, d.config_json FROM cards c JOIN notes n ... JOIN decks d ...
  WHERE c.id = ?\<close>, first row.\<close>

definition select_card :: "db \<Rightarrow> int \<Rightarrow> (card \<times> config) option" where
  "select_card s cardId =
     (case [(c, d_config d). c \<leftarrow> tbl_cards s, c_id c = cardId,
                             n \<leftarrow> tbl_notes s, n_id n = c_note_id c,
                             d \<leftarrow> tbl_decks s, d_id d = n_deck_id n] of
        [] \<Rightarrow> None
      | r # _ \<Rightarrow> Some r)"

definition answer_beforeState :: "card \<Rightarrow> sched_state" where
  "answer_beforeState c =
     \<lparr>state = c_state c, due = None, ivl = c_ivl c, ease = c_ease c,
      reps = c_reps c, lapses = c_lapses c\<rparr>"

definition update_card :: "int \<Rightarrow> sched_state \<Rightarrow> real \<Rightarrow> int \<Rightarrow> card \<Rightarrow> card" where
  "update_card cardId a d timestamp r =
     (if c_id r = cardId then
        r\<lparr>c_state := state a, c_due := d, c_ivl := ivl a, c_ease := ease a,
          c_reps := reps a, c_lapses := lapses a, c_updated_at := timestamp\<rparr>
      else r)"

text \<open>
  The handler of \<open>anki_answer_card\<close>: select, \<open>applyScheduling\<close>, \<open>UPDATE cards\<close>,
  \<open>INSERT INTO reviews\<close>, each its own statement on the connection. It returns the
  result or the error thrown, and the store as it is left; \<open>answer_timestamp\<close> is
  \<open>answeredAt || Math.floor(Date.now() / 1000)\<close>. An \<open>afterState.due\<close> that is
  \<open>undefined\<close> binds NULL to a NOT NULL column, so that update is rejected.
\<close>

definition answer_timestamp :: "int \<Rightarrow> int option \<Rightarrow> int" where
  "answer_timestamp now answeredAt =
     (case answeredAt of None \<Rightarrow> now | Some t \<Rightarrow> if t = 0 then now else t)"

definition answer_card ::
  "db_op set \<Rightarrow> int \<Rightarrow> int \<Rightarrow> real \<Rightarrow> db \<Rightarrow> int \<Rightarrow> int \<Rightarrow> int option
     \<Rightarrow> (error + answer_result) \<times> db" where
  "answer_card faults now today rnd s cardId rating answeredAt =
     (let timestamp = answer_timestamp now answeredAt
      in if SelectCard \<in> faults then (Inl StorageError, s)
         else case select_card s cardId of
           None \<Rightarrow> (Inl (CardNotFound cardId), s)
         | Some (c, cfg) \<Rightarrow>
             (let beforeState = answer_beforeState c;
                  afterState = applyScheduling cfg rnd today beforeState rating
              in if UpdateCard \<in> faults then (Inl StorageError, s)
                 else case due afterState of
                   None \<Rightarrow> (Inl StorageError, s)
                 | Some d \<Rightarrow>
                     (let s1 = s\<lparr>tbl_cards :=
                                    map (update_card cardId afterState d timestamp)
                                      (tbl_cards s)\<rparr>
                      in if InsertReview \<in> faults then (Inl StorageError, s1)
                         else
                           (let lid = review_seq s1 + 1;
                                row = \<lparr>r_id = lid, r_card_id = cardId, r_ts = timestamp,
                                       r_rating = rating,
                                       r_ivl_before = ivl beforeState, r_ivl_after = ivl afterState,
                                       r_ease_before = ease beforeState,
                                       r_ease_after = ease afterState,
                                       r_state_before = state beforeState,
                                       r_state_after = state afterState\<rparr>;
                                s2 = s1\<lparr>tbl_reviews := tbl_reviews s1 @ [row], review_seq := lid\<rparr>
                            in (Inr \<lparr>next_state = state afterState,
                                     dueTs = d * 24 * 60 * 60 + real_of_int timestamp,
                                     ivlDays = ivl afterState, logId = lid\<rparr>, s2)))))"

section \<open>The review queue\<close>

text \<open>
  The query of \<open>anki_get_next_card\<close> (and, clause for clause, of
  \<open>CardRepository.findDueCards\<close>) orders by
  \<open>CASE c.state ... END, c.due ASC, c.queue_position ASC, c.id ASC\<close> and takes
  \<open>LIMIT 1\<close>. The engine is SQLite, where a NULL sorts before every value under
  \<open>ASC\<close>; a \<open>CASE\<close> without \<open>ELSE\<close> yields NULL.
\<close>

fun sql_less :: "int option \<Rightarrow> int option \<Rightarrow> bool" where
  "sql_less None None = False"
| "sql_less None (Some b) = True"
| "sql_less (Some a) None = False"
| "sql_less (Some a) (Some b) = (a < b)"

definition state_rank :: "card_state \<Rightarrow> int option" where
  "state_rank st =
     (case st of
        Learning \<Rightarrow> Some 1
      | Relearning \<Rightarrow> Some 2
      | New \<Rightarrow> Some 3
      | Review \<Rightarrow> Some 4
      | Suspended \<Rightarrow> None
      | Buried \<Rightarrow> None)"

definition order_before :: "card \<Rightarrow> card \<Rightarrow> bool" where
  "order_before a b =
     (if state_rank (c_state a) \<noteq> state_rank (c_state b) then
        sql_less (state_rank (c_state a)) (state_rank (c_state b))
      else if c_due a \<noteq> c_due b then c_due a < c_due b
      else if c_queue_position a \<noteq> c_queue_position b then
        sql_less (c_queue_position a) (c_queue_position b)
      else c_id a < c_id b)"

fun insert_row :: "card \<Rightarrow> card list \<Rightarrow> card list" where
  "insert_row r [] = [r]"
| "insert_row r (x # xs) = (if order_before r x then r # x # xs else x # insert_row r xs)"

definition order_by :: "card list \<Rightarrow> card list" where
  "order_by rs = foldr insert_row rs []"

text \<open>The rows the \<open>WHERE\<close> clause keeps. \<open>scope\<close> is the list bound to
  \<open>n.deck_id IN (...)\<close>: \<open>None\<close> when no \<open>deckId\<close> is given, the deck alone or the
  deck with its descendants (\<open>getDeckHierarchy\<close>) otherwise.\<close>

definition due_rows :: "db \<Rightarrow> int \<Rightarrow> int list option \<Rightarrow> card list" where
  "due_rows s today scope =
     [c. c \<leftarrow> tbl_cards s,
         n \<leftarrow> tbl_notes s, n_id n = c_note_id c,
         d \<leftarrow> tbl_decks s, d_id d = n_deck_id n,
         c_state c \<in> {Learning, Relearning, New, Review},
         c_due c \<le> real_of_int today,
         (case scope of None \<Rightarrow> True | Some ids \<Rightarrow> n_deck_id n \<in> set ids)]"

text \<open>The row \<open>db.get\<close> hands to the handler; the payload is built from it.\<close>

definition get_next_card :: "db \<Rightarrow> int \<Rightarrow> int list option \<Rightarrow> card option" where
  "get_next_card s today scope =
     (case order_by (due_rows s today scope) of [] \<Rightarrow> None | r # _ \<Rightarrow> Some r)"



section \<open>Card generation\<close>

text \<open>\<open>a || b\<close> where \<open>a\<close> is a string or \<open>undefined\<close>: the empty string is falsy.\<close>

definition or_else :: "string option \<Rightarrow> string \<Rightarrow> string" where
  "or_else a b = (case a of None \<Rightarrow> b | Some v \<Rightarrow> if v = [] then b else v)"

definition is_digit :: "char \<Rightarrow> bool" where
  "is_digit c = (c \<in> set ''0123456789'')"

text \<open>The regular expression \<open>\{\{c(\d+)::\<close> tried at the head of a string: the digits
  captured and the text after the match. \<open>\d+\<close> is greedy and what follows it is not a
  digit, so backtracking never finds another match.\<close>

definition match_number_at :: "string \<Rightarrow> (string \<times> string) option" where
  "match_number_at s =
     (if take 3 s = ''{{c'' then
        (let ds = takeWhile is_digit (drop 3 s);
             s2 = dropWhile is_digit (drop 3 s)
         in if ds \<noteq> [] \<and> take 2 s2 = ''::'' then Some (ds, drop 2 s2) else None)
      else None)"

text \<open>\<open>\{\{c(\d+)::[^}]+\}\}\<close> tried at the head of a string: the matched text and
  the text after it.\<close>

definition match_cloze_at :: "string \<Rightarrow> (string \<times> string) option" where
  "match_cloze_at s =
     (case match_number_at s of
        None \<Rightarrow> None
      | Some (ds, s3) \<Rightarrow>
          (let body = takeWhile (\<lambda>c. c \<noteq> CHR ''}'') s3;
               s4 = dropWhile (\<lambda>c. c \<noteq> CHR ''}'') s3
           in if body \<noteq> [] \<and> take 2 s4 = ''}}'' then
                Some (''{{c'' @ ds @ ''::'' @ body @ ''}}'', drop 2 s4)
              else None))"

lemma match_cloze_at_shorter:
  "match_cloze_at s = Some (m, rest) \<Longrightarrow> length rest < length s"
proof -
  assume a: "match_cloze_at s = Some (m, rest)"
  then obtain ds s3 where n: "match_number_at s = Some (ds, s3)"
    by (auto simp: match_cloze_at_def split: option.splits)
  have d1: "length (dropWhile is_digit (drop 3 s)) \<le> length (drop 3 s)"
    by (rule length_dropWhile_le)
  have d2: "length (dropWhile (\<lambda>c. c \<noteq> CHR ''}'') s3) \<le> length s3"
    by (rule length_dropWhile_le)
  from n have s: "s \<noteq> []" and s3: "s3 = drop 2 (dropWhile is_digit (drop 3 s))"
    by (auto simp: match_number_at_def Let_def split: if_splits)
  from a n have r: "rest = drop 2 (dropWhile (\<lambda>c. c \<noteq> CHR ''}'') s3)"
    by (auto simp: match_cloze_at_def Let_def split: if_splits)
  from s have "length (drop 3 s) < length s" by (cases s) auto
  with d1 d2 s3 r show ?thesis by simp
qed

text \<open>\<open>text.match(/.../g)\<close>: every match, left to right, the scan resuming where the
  last match ended.\<close>

function cloze_matches :: "string \<Rightarrow> string list" where
  "cloze_matches [] = []"
| "cloze_matches (c # cs) =
     (case match_cloze_at (c # cs) of
        Some (m, rest) \<Rightarrow> m # cloze_matches rest
      | None \<Rightarrow> cloze_matches cs)"
  by pat_completeness auto
termination
  by (relation "measure length") (auto dest: match_cloze_at_shorter)

text \<open>\<open>match.match(/\{\{c(\d+)::/)\<close>: the first place the expression matches.\<close>

fun find_number :: "string \<Rightarrow> string option" where
  "find_number [] = None"
| "find_number (c # cs) =
     (case match_number_at (c # cs) of
        Some (ds, _) \<Rightarrow> Some ds
      | None \<Rightarrow> find_number cs)"

text \<open>\<open>parseInt\<close> of a string of decimal digits, as an exact natural number.\<close>

definition digit_value :: "char \<Rightarrow> nat" where
  "digit_value c = of_char c - 48"

definition parseInt :: "string \<Rightarrow> nat" where
  "parseInt ds = foldl (\<lambda>a c. 10 * a + digit_value c) 0 ds"

text \<open>\<open>[...new Set(xs)]\<close>: the values in the order of their first insertion.\<close>

definition new_Set :: "nat list \<Rightarrow> nat list" where
  "new_Set xs = foldl (\<lambda>acc x. if x \<in> set acc then acc else acc @ [x]) [] xs"

definition marker_numbers :: "string \<Rightarrow> nat list" where
  "marker_numbers txt =
     map (\<lambda>m. case find_number m of Some ds \<Rightarrow> parseInt ds | None \<Rightarrow> 1) (cloze_matches txt)"

definition clozeNumbers :: "(string \<times> string) list \<Rightarrow> nat list" where
  "clozeNumbers flds =
     new_Set (marker_numbers (or_else (map_of flds ''front'')
                               (or_else (map_of flds ''text'') [])))"

text \<open>\<open>INSERT INTO cards (note_id, template, state, due) VALUES (?, ?, 'new', 0)\<close>; the
  other columns take the defaults of the schema.\<close>

definition insert_card :: "int \<Rightarrow> db \<Rightarrow> int \<Rightarrow> template \<Rightarrow> int \<times> db" where
  "insert_card now s noteId tpl =
     (let cid = card_seq s + 1
      in (cid,
          s\<lparr>tbl_cards := tbl_cards s @
               [\<lparr>c_id = cid, c_note_id = noteId, c_template = tpl, c_state = New, c_due = 0,
                 c_ivl = 0, c_ease = 2.5, c_reps = 0, c_lapses = 0, c_queue_position = None,
                 c_updated_at = now\<rparr>],
            card_seq := cid\<rparr>))"

fun insert_cards :: "int \<Rightarrow> db \<Rightarrow> int \<Rightarrow> template list \<Rightarrow> int list \<times> db" where
  "insert_cards now s noteId [] = ([], s)"
| "insert_cards now s noteId (t # ts) =
     (let (cid, s1) = insert_card now s noteId t;
          (ids, s2) = insert_cards now s1 noteId ts
      in (cid # ids, s2))"

text \<open>The handler of \<open>anki.generate_cards_for_note\<close>.\<close>

definition generate_cards_for_note :: "int \<Rightarrow> db \<Rightarrow> int \<Rightarrow> (error + int list) \<times> db" where
  "generate_cards_for_note now s noteId =
     (case find (\<lambda>n. n_id n = noteId) (tbl_notes s) of
        None \<Rightarrow> (Inl (NoteNotFound noteId), s)
      | Some n \<Rightarrow>
          if n_model n = ''basic'' then
            (let (ids, s1) = insert_cards now s noteId [Forward] in (Inr ids, s1))
          else if n_model n = ''basic_reverse'' then
            (let (ids, s1) = insert_cards now s noteId [Forward, Reverse] in (Inr ids, s1))
          else if n_model n = ''cloze'' then
            (let (ids, s1) = insert_cards now s noteId (map Cloze (clozeNumbers (n_fields n)))
             in (Inr ids, s1))
          else (Inl (UnsupportedModel (n_model n)), s))"

text \<open>\<open>generateCards(noteId, model, fields)\<close> of the CSV and Markdown importers: the
  same switch, but an unknown model mints nothing.\<close>

definition generateCards ::
  "int \<Rightarrow> db \<Rightarrow> int \<Rightarrow> string \<Rightarrow> (string \<times> string) list \<Rightarrow> int list \<times> db" where
  "generateCards now s noteId model flds =
     (if model = ''basic'' then insert_cards now s noteId [Forward]
      else if model = ''basic_reverse'' then insert_cards now s noteId [Forward, Reverse]
      else if model = ''cloze'' then insert_cards now s noteId (map Cloze (clozeNumbers flds))
      else ([], s))"

definition getCardCount :: "string \<Rightarrow> (string \<times> string) list \<Rightarrow> int" where
  "getCardCount model flds =
     (if model = ''basic'' then 1
      else if model = ''basic_reverse'' then 2
      else if model = ''cloze'' then int (length (clozeNumbers flds))
      else 1)"

section \<open>Search: the tag term\<close>

text \<open>
  SQLite's \<open>LIKE\<close> with the pattern on the left: \<open>%\<close> matches any run of
  characters, \<open>_\<close> any one character, and every other character matches itself up to
  the case of the ASCII letters. No escape character is in force.
\<close>

definition ascii_upper :: "char \<Rightarrow> char" where
  "ascii_upper c =
     (let n = (of_char c :: nat) in if 97 \<le> n \<and> n \<le> 122 then char_of (n - 32) else c)"

fun like :: "string \<Rightarrow> string \<Rightarrow> bool" where
  "like [] [] = True"
| "like [] (c # s) = False"
| "like (p # ps) [] = (p = CHR ''%'' \<and> like ps [])"
| "like (p # ps) (c # s) =
     (if p = CHR ''%'' then like ps (c # s) \<or> like (p # ps) s
      else (p = CHR ''_'' \<or> ascii_upper p = ascii_upper c) \<and> like ps s)"

text \<open>\<open>value.replace(/"/g, '')\<close>.\<close>

definition strip_quotes :: "string \<Rightarrow> string" where
  "strip_quotes v = filter (\<lambda>c. c \<noteq> CHR 0x22) v"

text \<open>The \<open>tag\<close> case of \<open>parseSearchQuery\<close>: the four parameters pushed for
  \<open>(n.tags LIKE ? OR n.tags LIKE ? OR n.tags LIKE ? OR n.tags = ?)\<close>, and the condition
  on the column \<open>tags\<close> of a note. The comparison \<open>=\<close> is exact.\<close>

definition tag_params :: "string \<Rightarrow> string \<times> string \<times> string \<times> string" where
  "tag_params v =
     (let tagName = strip_quotes v
      in (tagName @ '' %'', ''% '' @ tagName @ '' %'', ''% '' @ tagName, tagName))"

definition tag_condition :: "string \<times> string \<times> string \<times> string \<Rightarrow> string \<Rightarrow> bool" where
  "tag_condition ps tags =
     (case ps of (p1, p2, p3, p4) \<Rightarrow>
        like p1 tags \<or> like p2 tags \<or> like p3 tags \<or> tags = p4)"



section \<open>Import\<close>

text \<open>\<open>JSON.stringify\<close> of an object whose values are strings.\<close>

definition hex_digit :: "nat \<Rightarrow> char" where
  "hex_digit n = ''0123456789abcdef'' ! n"

definition json_escape :: "char \<Rightarrow> string" where
  "json_escape c =
     (if c = CHR 0x22 then [CHR 0x5C, CHR 0x22]
      else if c = CHR 0x5C then [CHR 0x5C, CHR 0x5C]
      else if c = CHR 0x08 then [CHR 0x5C, CHR ''b'']
      else if c = CHR 0x0C then [CHR 0x5C, CHR ''f'']
      else if c = CHR 0x0A then [CHR 0x5C, CHR ''n'']
      else if c = CHR 0x0D then [CHR 0x5C, CHR ''r'']
      else if c = CHR 0x09 then [CHR 0x5C, CHR ''t'']
      else if (of_char c :: nat) < 32 then
        [CHR 0x5C] @ ''u00'' @ [hex_digit (of_char c div 16), hex_digit (of_char c mod 16)]
      else [c])"

definition json_string :: "string \<Rightarrow> string" where
  "json_string v = [CHR 0x22] @ concat (map json_escape v) @ [CHR 0x22]"

fun join :: "string \<Rightarrow> string list \<Rightarrow> string" where
  "join sep [] = []"
| "join sep [x] = x"
| "join sep (x # y # ys) = x @ sep @ join sep (y # ys)"

definition JSON_stringify :: "(string \<times> string) list \<Rightarrow> string" where
  "JSON_stringify flds =
     ''{'' @ join '','' (map (\<lambda>(k, v). json_string k @ '':'' @ json_string v) flds) @ ''}''"

record import_results =
  insertedNotes :: int
  insertedCards :: int
  errors :: "(int \<times> error) list"

text \<open>The helpers both importer classes define with the same text.\<close>

definition ensureDeckExists :: "db \<Rightarrow> string \<Rightarrow> db" where
  "ensureDeckExists s deckName =
     (case find (\<lambda>d. d_name d = deckName) (tbl_decks s) of
        Some d \<Rightarrow> s
      | None \<Rightarrow>
          s\<lparr>tbl_decks := tbl_decks s @
               [\<lparr>d_id = deck_seq s + 1, d_name = deckName, d_parent_id = None,
                 d_config = getDefaultConfig\<rparr>],
            deck_seq := deck_seq s + 1\<rparr>)"

text \<open>\<open>SELECT n.id FROM notes n JOIN decks d ON n.deck_id = d.id WHERE d.name = ? AND
  n.fields_json LIKE ? AND n.fields_json LIKE ?\<close> with the patterns
  \<open>%"front":"${front}"%\<close> and \<open>%"back":"${back}"%\<close>.\<close>

definition checkDuplicate :: "db \<Rightarrow> string \<Rightarrow> string \<Rightarrow> string \<Rightarrow> bool" where
  "checkDuplicate s deckName front back =
     ([n. n \<leftarrow> tbl_notes s, d \<leftarrow> tbl_decks s, d_id d = n_deck_id n, d_name d = deckName,
          like (''%'' @ [CHR 0x22] @ ''front'' @ [CHR 0x22] @ '':'' @ [CHR 0x22] @ front
                  @ [CHR 0x22] @ ''%'') (JSON_stringify (n_fields n)),
          like (''%'' @ [CHR 0x22] @ ''back'' @ [CHR 0x22] @ '':'' @ [CHR 0x22] @ back
                  @ [CHR 0x22] @ ''%'') (JSON_stringify (n_fields n))] \<noteq> [])"

definition getDeckId :: "db \<Rightarrow> string \<Rightarrow> error + int" where
  "getDeckId s deckName =
     (case find (\<lambda>d. d_name d = deckName) (tbl_decks s) of
        None \<Rightarrow> Inl (DeckNotFound deckName)
      | Some d \<Rightarrow> Inr (d_id d))"

definition createNote ::
  "db \<Rightarrow> int \<Rightarrow> string \<Rightarrow> (string \<times> string) list \<Rightarrow> string list \<Rightarrow> int \<times> db" where
  "createNote s deckId model flds tags =
     (let nid = note_seq s + 1
      in (nid,
          s\<lparr>tbl_notes := tbl_notes s @
               [\<lparr>n_id = nid, n_deck_id = deckId, n_model = model, n_fields = flds,
                 n_tags = join '' '' tags\<rparr>],
            note_seq := nid\<rparr>))"

text \<open>The part of \<open>processRecord\<close> after the fields are read, the same in both
  classes: validation, the duplicate check, then the inserts or the dry-run count.\<close>

definition process_fields ::
  "int \<Rightarrow> string \<Rightarrow> string \<Rightarrow> string \<Rightarrow> string \<Rightarrow> (string \<times> string) list \<Rightarrow> string list
     \<Rightarrow> bool \<Rightarrow> bool \<Rightarrow> db \<times> import_results \<Rightarrow> error + (db \<times> import_results)" where
  "process_fields now deck model front back flds tags dedupe dryRun acc =
     (case acc of (s, results) \<Rightarrow>
        if front = [] then Inl FrontRequired
        else if model = ''basic'' \<and> back = [] then Inl BackRequired
        else if dedupe \<and> checkDuplicate s deck front back then Inr (s, results)
        else if \<not> dryRun then
          (case getDeckId s deck of
             Inl e \<Rightarrow> Inl e
           | Inr deckId \<Rightarrow>
               (let (noteId, s1) = createNote s deckId model flds tags;
                    results1 = results\<lparr>insertedNotes := insertedNotes results + 1\<rparr>;
                    (cardIds, s2) = generateCards now s1 noteId model flds
                in Inr (s2, results1\<lparr>insertedCards :=
                                         insertedCards results1 + int (length cardIds)\<rparr>)))
        else
          Inr (s, results\<lparr>insertedNotes := insertedNotes results + 1,
                          insertedCards := insertedCards results + getCardCount model flds\<rparr>))"




text \<open>A record of \<open>parseMarkdown\<close>: \<open>{deck, model, fields, tags}\<close>.\<close>

record md_record =
  md_deck :: "string option"
  md_model :: string
  md_fields :: "(string \<times> string) list"
  md_tags :: "string list"

definition md_processRecord ::
  "int \<Rightarrow> md_record \<Rightarrow> string \<Rightarrow> bool \<Rightarrow> bool \<Rightarrow> db \<times> import_results
     \<Rightarrow> error + (db \<times> import_results)" where
  "md_processRecord now record deckDefault dedupe dryRun acc =
     (let deck = or_else (md_deck record) deckDefault;
          model = or_else (Some (md_model record)) ''basic''
      in process_fields now deck model
           (or_else (map_of (md_fields record) ''front'') [])
           (or_else (map_of (md_fields record) ''back'') [])
           (md_fields record) (md_tags record) dedupe dryRun acc)"

text \<open>The loop of \<open>import\<close>: an exception of \<open>processRecord\<close> is caught and pushed on
  \<open>results.errors\<close> with the record's label (\<open>row: i + 1\<close> for CSV, \<open>index: i\<close> for
  Markdown); nothing else writes to \<open>errors\<close>.\<close>

definition import_step ::
  "('r \<Rightarrow> db \<times> import_results \<Rightarrow> error + (db \<times> import_results)) \<Rightarrow> int \<Rightarrow> 'r
     \<Rightarrow> db \<times> import_results \<Rightarrow> db \<times> import_results" where
  "import_step process label r acc =
     (case process r acc of
        Inr acc' \<Rightarrow> acc'
      | Inl e \<Rightarrow> (fst acc, (snd acc)\<lparr>errors := errors (snd acc) @ [(label, e)]\<rparr>))"

fun import_loop ::
  "('r \<Rightarrow> db \<times> import_results \<Rightarrow> error + (db \<times> import_results)) \<Rightarrow> (nat \<Rightarrow> int) \<Rightarrow> nat
     \<Rightarrow> 'r list \<Rightarrow> db \<times> import_results \<Rightarrow> db \<times> import_results" where
  "import_loop process label i [] acc = acc"
| "import_loop process label i (r # rs) acc =
     import_loop process label (Suc i) rs (import_step process (label i) r acc)"


definition md_import ::
  "int \<Rightarrow> db \<Rightarrow> md_record list \<Rightarrow> string \<Rightarrow> bool \<Rightarrow> bool \<Rightarrow> db \<times> import_results" where
  "md_import now s records deckDefault dedupe dryRun =
     import_loop (\<lambda>r. md_processRecord now r deckDefault dedupe dryRun) (\<lambda>i. int i) 0
       records
       (ensureDeckExists s deckDefault,
        \<lparr>insertedNotes = 0, insertedCards = 0, errors = []\<rparr>)"

section \<open>Example data\<close>

text \<open>A card as \<open>insert_card\<close> leaves it, and a store with one deck of default
  configuration and one basic note; the examples below vary the cards.\<close>

definition fresh_card :: "int \<Rightarrow> int \<Rightarrow> card" where
  "fresh_card cid noteId =
     \<lparr>c_id = cid, c_note_id = noteId, c_template = Forward, c_state = New, c_due = 0,
      c_ivl = 0, c_ease = 2.5, c_reps = 0, c_lapses = 0, c_queue_position = None,
      c_updated_at = 0\<rparr>"

definition example_db :: "card list \<Rightarrow> db" where
  "example_db cs =
     \<lparr>tbl_cards = cs,
      tbl_notes = [\<lparr>n_id = 1, n_deck_id = 1, n_model = ''basic'',
                    n_fields = [(''front'', ''Q''), (''back'', ''A''), (''extra'', [])],
                    n_tags = ''t1''\<rparr>],
      tbl_decks = [\<lparr>d_id = 1, d_name = ''Inbox'', d_parent_id = None,
                    d_config = getDefaultConfig\<rparr>],
      tbl_reviews = [], card_seq = 2, note_seq = 1, deck_seq = 1, review_seq = 0\<rparr>"

text \<open>The review card of the leech scenario: seven lapses, one short of the default
  threshold.\<close>

definition leech_card :: card where
  "leech_card =
     (fresh_card 1 1)\<lparr>c_state := Review, c_due := 20000, c_ivl := 10, c_reps := 12,
                      c_lapses := 7\<rparr>"


text \<open>A store whose only note is a cloze note with the given front text.\<close>

definition cloze_db :: "string \<Rightarrow> db" where
  "cloze_db txt =
     (example_db [])\<lparr>tbl_notes := [\<lparr>n_id = 1, n_deck_id = 1, n_model = ''cloze'',
                                     n_fields = [(''front'', txt)], n_tags = []\<rparr>],
                      card_seq := 0\<rparr>"



lemmas example_defs =
  example_db_def fresh_card_def leech_card_def getDefaultConfig_def

lemmas cloze_defs =
  cloze_db_def example_defs generate_cards_for_note_def clozeNumbers_def marker_numbers_def
  new_Set_def or_else_def match_cloze_at_def match_number_at_def is_digit_def parseInt_def
  digit_value_def insert_card_def Let_def


lemmas answer_card_defs =
  answer_card_def answer_timestamp_def select_card_def answer_beforeState_def update_card_def
  applyScheduling_def Let_def

section \<open>Scheduling a lapse\<close>

text \<open>On a review card rated 1, \<open>applyScheduling\<close> resets the interval to 0 and makes
  the card due today, with one more lapse and the ease lowered by 0.2 down to
  \<open>minEase\<close>. It has no leech rule: the state is \<open>relearning\<close> whatever the lapse count.\<close>

lemma applyScheduling_review_again:
  "applyScheduling cfg rnd today (st\<lparr>state := Review\<rparr>) 1 =
     st\<lparr>state := Relearning, due := Some (real_of_int today), ivl := 0,
        ease := max (minEase cfg) (ease st - 0.2), reps := reps st + 1,
        lapses := lapses st + 1\<rparr>"
  by (simp add: applyScheduling_def Let_def)

text \<open>In the \<open>Scheduler\<close> class the guard after the switch of \<open>scheduleReviewCard\<close>
  (\<open>if (state.ivl < 1)\<close>) also runs after a lapse, so for every review card and every
  configuration the interval comes out as 1 and the due day as tomorrow.\<close>

lemma scheduleCard_review_again_interval:
  "map_sum id (\<lambda>(b, a). (ivl a, due a, lapses a, ease a))
     (scheduleCard cfg rnd today (c\<lparr>c_state := Review\<rparr>) 1) =
   Inr (1, Some (real_of_int today + 1), c_lapses c + 1, max (minEase cfg) (c_ease c - 0.2))"
  by (simp add: scheduleCard_def scheduleReviewCard_def beforeState_of_def Let_def)

text \<open>
  \<^bold>\<open>Claim C1.\<close> A review card answered with rating 1 gets one more lapse, state
  \<open>relearning\<close> (or \<open>suspended\<close> by the leech rule), ease \<open>max(minEase, ease - 0.2)\<close>,
  interval 0 and due day today. \<open>Scheduler.scheduleCard\<close> on the card of the leech
  scenario (interval 10, ease 2.5, seven lapses, default configuration) returns interval
  1 and the due day after today instead.
\<close>

theorem scheduleCard_review_again_scenario:
  "scheduleCard getDefaultConfig (1 / 2) 20000 leech_card 1 =
     Inr (\<lparr>state = Review, due = Some 20000, ivl = 10, ease = 2.5, reps = 12, lapses = 7\<rparr>,
          \<lparr>state = Suspended, due = Some 20001, ivl = 1, ease = 2.3, reps = 13, lapses = 8\<rparr>)"
  by (simp add: scheduleCard_def scheduleReviewCard_def beforeState_of_def example_defs Let_def)

text \<open>
  \<^bold>\<open>Claim C2.\<close> A card whose failed review brings its lapses to the leech threshold
  under \<open>leechAction = suspend\<close> is \<open>suspended\<close> once \<open>answer_card\<close> has committed.
  The handler on the leech scenario stores \<open>relearning\<close>: eight lapses against a
  threshold of eight, and the card stays in the queue.
\<close>

theorem answer_card_leech_not_suspended:
  "leechThreshold getDefaultConfig = 8 \<and> leechAction getDefaultConfig = Suspend \<and>
   answer_card {} 1700000000 20000 (1 / 2) (example_db [leech_card]) 1 1 None =
     (Inr \<lparr>next_state = Relearning, dueTs = 20000 * 24 * 60 * 60 + 1700000000, ivlDays = 0,
           logId = 1\<rparr>,
      (example_db [leech_card\<lparr>c_state := Relearning, c_ease := 2.3, c_ivl := 0, c_reps := 13,
                     c_lapses := 8, c_updated_at := 1700000000\<rparr>])
        \<lparr>tbl_reviews :=
           [\<lparr>r_id = 1, r_card_id = 1, r_ts = 1700000000, r_rating = 1, r_ivl_before = 10,
             r_ivl_after = 0, r_ease_before = 2.5, r_ease_after = 2.3,
             r_state_before = Review, r_state_after = Relearning\<rparr>],
         review_seq := 1\<rparr>)"
  by (simp add: answer_card_defs example_defs)

section \<open>Failure of a statement in the answer-card tool\<close>

lemma update_card_others:
  "filter (\<lambda>r. c_id r \<noteq> cardId) (map (update_card cardId a d ts) rows) =
   filter (\<lambda>r. c_id r \<noteq> cardId) rows"
  by (induction rows) (simp_all add: update_card_def)

text \<open>The handler writes to no card but the one answered.\<close>

lemma answer_card_other_cards:
  "filter (\<lambda>r. c_id r \<noteq> cardId)
     (tbl_cards (snd (answer_card faults now today rnd s cardId rating answeredAt))) =
   filter (\<lambda>r. c_id r \<noteq> cardId) (tbl_cards s)"
  by (simp add: answer_card_def Let_def update_card_others split: option.splits prod.splits)

text \<open>
  \<^bold>\<open>Claim C3\<close> as stated: the card update and the review-log insert are atomic, so when
  either fails the card's scheduling fields are unchanged and no review row exists. It
  fails when the insert fails: the update has already been applied. Here a new card is
  answered with rating 4 and the insert is the failing statement.
\<close>

theorem answer_card_not_atomic:
  "fst (answer_card {InsertReview} 1700000000 20000 (1 / 2) (example_db [fresh_card 1 1]) 1 4
          None) = Inl StorageError
   \<and> tbl_reviews (snd (answer_card {InsertReview} 1700000000 20000 (1 / 2)
          (example_db [fresh_card 1 1]) 1 4 None)) = []
   \<and> tbl_cards (snd (answer_card {InsertReview} 1700000000 20000 (1 / 2)
          (example_db [fresh_card 1 1]) 1 4 None)) =
       [(fresh_card 1 1)\<lparr>c_state := Review, c_due := 20002, c_ivl := 2, c_ease := 2.65,
                          c_reps := 1, c_updated_at := 1700000000\<rparr>]"
  by (simp add: answer_card_defs example_defs)

text \<open>
  \<^bold>\<open>Claim C3\<close> as amended: the update and the insert are two statements, issued in that
  order. When the update fails the store is left as it was; whenever the handler fails,
  no review row has been added; when the update succeeds and the insert fails, the
  handler fails with the card row already rewritten.
\<close>

theorem answer_card_failure_effects:
  assumes "select_card s cardId = Some (c, cfg)"
    and "due (applyScheduling cfg rnd today (answer_beforeState c) rating) = Some d"
    and "SelectCard \<notin> faults" and "UpdateCard \<notin> faults"
  shows "answer_card (insert UpdateCard faults) now today rnd s cardId rating answeredAt =
           (Inl StorageError, s)
     \<and> answer_card (insert InsertReview faults) now today rnd s cardId rating answeredAt =
           (Inl StorageError,
            s\<lparr>tbl_cards :=
                 map (update_card cardId
                        (applyScheduling cfg rnd today (answer_beforeState c) rating) d
                        (answer_timestamp now answeredAt))
                   (tbl_cards s)\<rparr>)"
  using assms by (simp add: answer_card_def Let_def)

text \<open>A witness: the new card of the example store, rating 4, no other fault.\<close>

theorem answer_card_failure_effects_witness:
  "select_card (example_db [fresh_card 1 1]) 1 = Some (fresh_card 1 1, getDefaultConfig)
   \<and> due (applyScheduling getDefaultConfig (1 / 2) 20000 (answer_beforeState (fresh_card 1 1)) 4)
       = Some 20002
   \<and> SelectCard \<notin> {} \<and> UpdateCard \<notin> {}
   \<and> answer_card {UpdateCard} 1700000000 20000 (1 / 2) (example_db [fresh_card 1 1]) 1 4 None =
       (Inl StorageError, example_db [fresh_card 1 1])
   \<and> answer_card {InsertReview} 1700000000 20000 (1 / 2) (example_db [fresh_card 1 1]) 1 4 None =
       (Inl StorageError,
        example_db [(fresh_card 1 1)\<lparr>c_state := Review, c_due := 20002, c_ivl := 2,
                       c_ease := 2.65, c_reps := 1, c_updated_at := 1700000000\<rparr>])"
proof -
  have sel: "select_card (example_db [fresh_card 1 1]) 1 = Some (fresh_card 1 1, getDefaultConfig)"
    by (simp add: select_card_def example_defs)
  have d: "due (applyScheduling getDefaultConfig (1 / 2) 20000
                 (answer_beforeState (fresh_card 1 1)) 4) = Some 20002"
    by (simp add: answer_card_defs example_defs)
  have f: "SelectCard \<notin> {}" "UpdateCard \<notin> {}"
    by simp_all
  from answer_card_failure_effects [OF sel d f, of 1700000000 None] sel d show ?thesis
    by (simp add: answer_card_defs example_defs)
qed

text \<open>Whenever the handler fails, the review log is as it was.\<close>

lemma answer_card_error_no_review:
  "isl (fst (answer_card faults now today rnd s cardId rating answeredAt)) \<Longrightarrow>
   tbl_reviews (snd (answer_card faults now today rnd s cardId rating answeredAt)) =
     tbl_reviews s"
  by (simp add: answer_card_def Let_def split: option.splits prod.splits if_splits)

section \<open>Siblings of the answered card\<close>

text \<open>
  \<^bold>\<open>Claim C4.\<close> With \<open>burySiblings\<close> set, every other card of the answered card's note
  that is not suspended is \<open>buried\<close> after the review. The handler never writes to a
  sibling (\<open>answer_card_other_cards\<close>): here cards 1 and 2 belong to note 1 of a deck
  with the default configuration, card 1 is answered, and card 2 is still \<open>new\<close>.
\<close>

theorem answer_card_siblings_not_buried:
  "burySiblings getDefaultConfig \<and>
   tbl_cards (snd (answer_card {} 1700000000 20000 (1 / 2)
                     (example_db [fresh_card 1 1, fresh_card 2 1]) 1 3 None)) =
     [(fresh_card 1 1)\<lparr>c_state := Learning, c_due := 20000, c_reps := 1,
                        c_updated_at := 1700000000\<rparr>,
      fresh_card 2 1]"
  by (simp add: answer_card_defs example_defs)

section \<open>A new card answered Easy\<close>



section \<open>The two schedulers compared\<close>

lemma applyScheduling_review_pass:
  "state st = Review \<Longrightarrow> rating \<noteq> 1 \<Longrightarrow>
   applyScheduling cfg rnd today st rating =
     st\<lparr>reps := reps st + 1,
        ease := (if rating = 2 then max (minEase cfg) (ease st - 0.15)
                 else if rating = 4 then ease st + 0.15 else ease st),
        ivl := real_of_int \<lceil>ivl st * (if rating = 2 then hardInterval cfg
                 else if rating = 4 then ease st * easyBonus cfg else ease st)
                 * getFuzzFactor cfg rnd\<rceil>,
        due := Some (real_of_int today + real_of_int \<lceil>ivl st * (if rating = 2 then hardInterval cfg
                 else if rating = 4 then ease st * easyBonus cfg else ease st)
                 * getFuzzFactor cfg rnd\<rceil>)\<rparr>"
  by (simp add: applyScheduling_def getFuzzFactor_def Let_def)

lemma ceiling_pos_not_less_one: "0 < x \<Longrightarrow> \<not> real_of_int \<lceil>x\<rceil> < 1" for x :: real
  by (smt (verit) ceiling_less_one of_int_less_1_iff)

text \<open>
  \<^bold>\<open>Claim C10\<close> as stated: with the fuzz factor fixed to 1, \<open>scheduleCard\<close> and
  \<open>applyScheduling\<close> compute the same after-state for every state in \<open>new\<close>,
  \<open>learning\<close>, \<open>relearning\<close>, \<open>review\<close> and every rating from 1 to 4. They differ on a
  learning card rated 4: the class applies the easy bonus to the interval and adds 0.15
  to the ease, \<open>applyScheduling\<close> graduates it like a card rated 2 or 3.
\<close>

theorem schedulers_differ:
  "getFuzzFactor getDefaultConfig (1 / 2) = 1
   \<and> map_sum id snd (scheduleCard getDefaultConfig (1 / 2) 20000
                        ((fresh_card 1 1)\<lparr>c_state := Learning, c_reps := 1\<rparr>) 4) =
       Inr \<lparr>state = Review, due = Some 20002, ivl = 2, ease = 2.65, reps = 1, lapses = 0\<rparr>
   \<and> applyScheduling getDefaultConfig (1 / 2) 20000
       (answer_beforeState ((fresh_card 1 1)\<lparr>c_state := Learning, c_reps := 1\<rparr>)) 4 =
       \<lparr>state = Review, due = Some 20001, ivl = 1, ease = 2.5, reps = 1, lapses = 0\<rparr>"
  by (simp add: scheduleCard_def scheduleLearningCard_def applyScheduling_def
      answer_beforeState_def beforeState_of_def getFuzzFactor_def example_defs Let_def)

text \<open>
  \<^bold>\<open>Claim C10\<close> as amended: with the fuzz factor equal to 1 the two schedulers compute
  the same after-state for a new card under every rating from 1 to 4, for a learning or
  relearning card under ratings 1 to 3, and for a review card under ratings 2 and 3
  when the product of the interval and its multiplier is positive.
\<close>

theorem schedulers_agree:
  assumes fz: "getFuzzFactor cfg rnd = 1"
    and dom: "c_state c = New \<and> rating \<in> {1, 2, 3, 4}
      \<or> c_state c \<in> {Learning, Relearning} \<and> rating \<in> {1, 2, 3}
      \<or> c_state c = Review \<and> rating = 2 \<and> 0 < c_ivl c * hardInterval cfg
      \<or> c_state c = Review \<and> rating = 3 \<and> 0 < c_ivl c * c_ease c"
  shows "map_sum id snd (scheduleCard cfg rnd today c rating) =
     Inr (applyScheduling cfg rnd today (answer_beforeState c) rating)"
proof -
  consider (new) "c_state c = New" "rating \<in> {1, 2, 3, 4}"
    | (learn) "c_state c \<in> {Learning, Relearning}" "rating \<in> {1, 2, 3}"
    | (hard) "c_state c = Review" "rating = 2" "0 < c_ivl c * hardInterval cfg"
    | (good) "c_state c = Review" "rating = 3" "0 < c_ivl c * c_ease c"
    using dom by blast
  then show ?thesis
  proof cases
    case new
    then show ?thesis
      by (auto simp: scheduleCard_def scheduleNewCard_def applyScheduling_def
          answer_beforeState_def beforeState_of_def Let_def)
  next
    case learn
    then show ?thesis
      by (auto simp: scheduleCard_def scheduleLearningCard_def applyScheduling_def
          answer_beforeState_def beforeState_of_def Let_def)
  next
    case hard
    have "state (answer_beforeState c) = Review" "rating \<noteq> 1"
      using hard by (simp_all add: answer_beforeState_def)
    from applyScheduling_review_pass [OF this] hard show ?thesis
      by (simp add: fz scheduleCard_def scheduleReviewCard_def
          answer_beforeState_def beforeState_of_def Let_def ceiling_pos_not_less_one)
  next
    case good
    have "state (answer_beforeState c) = Review" "rating \<noteq> 1"
      using good by (simp_all add: answer_beforeState_def)
    from applyScheduling_review_pass [OF this] good show ?thesis
      by (simp add: fz scheduleCard_def scheduleReviewCard_def
          answer_beforeState_def beforeState_of_def Let_def ceiling_pos_not_less_one)
  qed
qed

text \<open>A witness: a review card with interval 10 and ease 2.5, rated 3; both give 25.\<close>

theorem schedulers_agree_witness:
  "getFuzzFactor getDefaultConfig (1 / 2) = 1
   \<and> c_state ((fresh_card 1 1)\<lparr>c_state := Review, c_ivl := 10\<rparr>) = Review
   \<and> 0 < c_ivl ((fresh_card 1 1)\<lparr>c_state := Review, c_ivl := 10\<rparr>)
         * c_ease ((fresh_card 1 1)\<lparr>c_state := Review, c_ivl := 10\<rparr>)
   \<and> map_sum id snd (scheduleCard getDefaultConfig (1 / 2) 20000
                        ((fresh_card 1 1)\<lparr>c_state := Review, c_ivl := 10\<rparr>) 3) =
       Inr \<lparr>state = Review, due = Some 20025, ivl = 25, ease = 2.5, reps = 1, lapses = 0\<rparr>"
proof -
  have fz: "getFuzzFactor getDefaultConfig (1 / 2) = 1"
    by (simp add: getFuzzFactor_def)
  have dom: "c_state ((fresh_card 1 1)\<lparr>c_state := Review, c_ivl := 10\<rparr>) = Review"
    "0 < c_ivl ((fresh_card 1 1)\<lparr>c_state := Review, c_ivl := 10\<rparr>)
         * c_ease ((fresh_card 1 1)\<lparr>c_state := Review, c_ivl := 10\<rparr>)"
    by (simp_all add: fresh_card_def)
  from schedulers_agree [OF fz, of "(fresh_card 1 1)\<lparr>c_state := Review, c_ivl := 10\<rparr>" 3 20000]
    fz dom
  show ?thesis
    by (simp add: applyScheduling_def answer_beforeState_def getFuzzFactor_def example_defs
        Let_def)
qed

section \<open>The next card\<close>








lemma set_insert_row: "set (insert_row r xs) = insert r (set xs)"
  by (induction xs) auto

lemma set_order_by: "set (order_by rs) = set rs"
  by (induction rs) (simp_all add: order_by_def set_insert_row)




lemma get_next_card_None: "get_next_card s today scope = None \<longleftrightarrow> due_rows s today scope = []"
  using set_order_by [of "due_rows s today scope"]
  by (auto simp: get_next_card_def split: list.splits)





section \<open>Cloze cards\<close>

text \<open>What the scan finds: a match is a marker \<open>{{cN::body}}\<close> with at least one
  digit and a non-empty body free of \<open>}\<close>, and it is a prefix of the text scanned.\<close>

lemma take_append_drop: "take n s = p \<Longrightarrow> length p = n \<Longrightarrow> s = p @ drop n s"
  by (metis append_take_drop_id)

lemma match_number_at_shape:
  assumes "match_number_at s = Some (ds, rest)"
  shows "s = ''{{c'' @ ds @ ''::'' @ rest \<and> ds \<noteq> [] \<and> list_all is_digit ds"
proof -
  let ?s1 = "drop 3 s"
  let ?s2 = "dropWhile is_digit ?s1"
  from assms have t3: "take 3 s = ''{{c''" and ds: "ds = takeWhile is_digit ?s1" "ds \<noteq> []"
    and t2: "take 2 ?s2 = ''::''" and rest: "rest = drop 2 ?s2"
    by (auto simp: match_number_at_def Let_def split: if_splits)
  from t3 have "s = ''{{c'' @ ?s1" by (intro take_append_drop) simp_all
  moreover have "?s1 = ds @ ?s2" by (simp add: ds)
  moreover from t2 have "?s2 = ''::'' @ rest" unfolding rest by (intro take_append_drop) simp_all
  moreover have "list_all is_digit ds"
    unfolding ds by (simp add: list_all_iff) (metis set_takeWhileD)
  ultimately show ?thesis using ds(2) by metis
qed

lemma match_cloze_at_shape:
  assumes "match_cloze_at s = Some (m, rest)"
  shows "s = m @ rest \<and>
    (\<exists>ds body. m = ''{{c'' @ ds @ ''::'' @ body @ ''}}'' \<and> ds \<noteq> [] \<and> list_all is_digit ds
       \<and> body \<noteq> [] \<and> CHR ''}'' \<notin> set body)"
proof -
  from assms obtain ds s3 where n: "match_number_at s = Some (ds, s3)"
    by (auto simp: match_cloze_at_def split: option.splits)
  let ?body = "takeWhile (\<lambda>c. c \<noteq> CHR ''}'') s3"
  let ?s4 = "dropWhile (\<lambda>c. c \<noteq> CHR ''}'') s3"
  from assms n have b: "?body \<noteq> []" and t2: "take 2 ?s4 = ''}}''"
    and m: "m = ''{{c'' @ ds @ ''::'' @ ?body @ ''}}''" and rest: "rest = drop 2 ?s4"
    by (auto simp: match_cloze_at_def Let_def split: if_splits)
  from match_number_at_shape [OF n] have s: "s = ''{{c'' @ ds @ ''::'' @ s3"
    and ds: "ds \<noteq> []" "list_all is_digit ds" by simp_all
  have "s3 = ?body @ ?s4" by simp
  moreover from t2 have "?s4 = ''}}'' @ rest" unfolding rest by (intro take_append_drop) simp_all
  ultimately have "s3 = ?body @ ''}}'' @ rest" by metis
  with s m have "s = m @ rest" by simp
  moreover have "CHR ''}'' \<notin> set ?body"
    by (metis (mono_tags, lifting) set_takeWhileD)
  ultimately show ?thesis using m ds b by blast
qed

lemma not_digit_colon: "\<not> is_digit CHR '':''"
  by (simp add: is_digit_def)

lemma find_number_marker:
  assumes "ds \<noteq> []" and "list_all is_digit ds"
  shows "find_number (''{{c'' @ ds @ ''::'' @ rest) = Some ds"
proof -
  have tw: "takeWhile is_digit (ds @ ''::'' @ rest) = ds"
    using assms(2) by (simp add: takeWhile_append2 list_all_iff not_digit_colon)
  have dw: "dropWhile is_digit (ds @ ''::'' @ rest) = ''::'' @ rest"
    using assms(2) by (simp add: dropWhile_append2 list_all_iff not_digit_colon)
  have "match_number_at (''{{c'' @ ds @ ''::'' @ rest) = Some (ds, rest)"
    using assms(1) tw dw by (simp add: match_number_at_def Let_def)
  then show ?thesis by simp
qed

text \<open>Every match is a marker, and the number taken from it is the value of its digits.\<close>

lemma cloze_matches_markers:
  "m \<in> set (cloze_matches s) \<Longrightarrow>
   \<exists>ds body. m = ''{{c'' @ ds @ ''::'' @ body @ ''}}'' \<and> ds \<noteq> [] \<and> list_all is_digit ds
      \<and> body \<noteq> [] \<and> CHR ''}'' \<notin> set body \<and> find_number m = Some ds"
proof (induction s rule: cloze_matches.induct)
  case 1
  then show ?case by simp
next
  case (2 c cs)
  show ?case
  proof (cases "match_cloze_at (c # cs)")
    case None
    with 2 show ?thesis by simp
  next
    case (Some p)
    obtain m' rest where p: "p = (m', rest)" by (cases p)
    from 2(3) Some p consider "m = m'" | "m \<in> set (cloze_matches rest)" by auto
    then show ?thesis
    proof cases
      case 1
      from match_cloze_at_shape [OF Some [unfolded p]] obtain ds body where
        sh: "m' = ''{{c'' @ ds @ ''::'' @ body @ ''}}''" "ds \<noteq> []" "list_all is_digit ds"
          "body \<noteq> []" "CHR ''}'' \<notin> set body" by blast
      from find_number_marker [OF sh(2,3), of "body @ ''}}''"] sh 1 show ?thesis by auto
    next
      case 2
      with "2.IH"(2) [OF Some [unfolded p] refl] show ?thesis by simp
    qed
  qed
qed









text \<open>No marker, no card; and a marker numbered 0 mints a card like any other.\<close>

lemma cloze_no_markers:
  "generate_cards_for_note 0 (cloze_db ''no markers here'') 1 = (Inr [], cloze_db ''no markers here'')"
  by (simp add: cloze_defs)

lemma cloze_zero_minted:
  "map c_template (tbl_cards (snd (generate_cards_for_note 0 (cloze_db ''{{c0::b}}'') 1))) = [Cloze 0]"
  by (simp add: cloze_defs)


section \<open>The tag term of a search\<close>
























text \<open>Further instances: \<open>_\<close> in the value is a wildcard; a note with the single tag
  \<open>Pharm\<close> is not selected by \<open>tag:pharm\<close>, since the fourth alternative compares
  exactly; a longer tag containing the value is not selected.\<close>

lemma tag_condition_wildcard:
  "tag_condition (tag_params ''a_c'') ''abc d''"
  by code_simp

lemma tag_condition_single_exact:
  "\<not> tag_condition (tag_params ''pharm'') ''Pharm''"
  by code_simp

lemma tag_condition_no_substring:
  "\<not> tag_condition (tag_params ''pharm'') ''pharmacology xpharm''"
  by code_simp


section \<open>Duplicates in an import\<close>








end
